theory Spec2Isabelle
  imports Main "HOL-Library.Sublist" "HOL-Library.Word"
begin

section \<open>The MCP stdio bridge (mcp_stdio_bridge.py)\<close>

text \<open>
  The bridge reads JSON-RPC requests from standard input, one per line, answers the
  protocol methods itself and forwards \<open>tools/call\<close> to an HTTP backend. The embedding
  follows the Python source function by function. A Python \<open>str\<close> is the \<open>string\<close> of
  its UTF-8 bytes; a Python \<open>dict\<close> is an association list in insertion order (the
  decoder delivers each key once); Python's \<open>None\<close> is JSON's \<open>null\<close>.
\<close>

subsection \<open>JSON values and Python exceptions\<close>

text \<open>
  What \<open>json.loads\<close> and \<open>response.json()\<close> deliver. A Python \<open>float\<close> is carried as
  its IEEE-754 binary64 bit pattern; the bridge never computes with one, it only
  prints it.
\<close>

datatype json =
    JNull
  | JBool bool
  | JInt int
  | JFloat "64 word"
  | JStr string
  | JArr "json list"
  | JObj "(string \<times> json) list"

text \<open>
  The exceptions the bridge can meet. \<open>KeyError\<close> carries the missing key, the
  others the text that \<open>str(e)\<close> gives. \<open>ConnectionError\<close> is
  \<open>requests.exceptions.ConnectionError\<close>; \<open>UnicodeDecodeError\<close> is what a text stream
  raises on bytes that its decoder rejects; \<open>OtherException\<close> stands for every other
  subclass of \<open>Exception\<close> (a timeout, a decoder's \<open>ValueError\<close>, ...).
\<close>

datatype py_exn =
    JSONDecodeError string
  | AttributeError string
  | KeyError string
  | TypeError string
  | ConnectionError
  | UnicodeDecodeError string
  | OtherException string

text \<open>What one HTTP request comes back with: a status code and the outcome of
  \<open>response.json()\<close> on the body, or the exception that \<open>requests\<close> raised.\<close>

datatype http_outcome =
    HttpResponse int "py_exn + json"
  | HttpRaises py_exn

text \<open>
  The library and the world outside the repository are parameters of the model:
  \<^item> \<open>loads\<close> is \<open>json.loads\<close> (\<open>Inl\<close> the exception it raises);
  \<open>repr_other\<close> is \<open>str()\<close> on a float, a list or a dict;
  \<open>subscript_msg\<close> is the text of the \<open>TypeError\<close> that \<open>v['key']\<close> raises on
  a value \<open>v\<close> that is not a dict (it differs between Python versions);
  \<^item> \<open>http_post\<close> is \<open>requests.post\<close> on the tool endpoint with the given JSON body and
  \<open>http_get\<close> is the start-up probe \<open>requests.get\<close> (\<open>None\<close> when it raises), both
  acting on the state \<open>'w\<close> of the backend and the network.
\<close>

record 'w env =
  loads :: "string \<Rightarrow> py_exn + json"
  repr_other :: "json \<Rightarrow> string"
  subscript_msg :: "json \<Rightarrow> string"
  http_post :: "'w \<Rightarrow> json \<Rightarrow> http_outcome \<times> 'w"
  http_get :: "'w \<Rightarrow> int option \<times> 'w"

text \<open>The state the program acts on: the frames written to standard output and the
  lines written to standard error, oldest first, and the backend's state.\<close>

record 'w state =
  out :: "json list"
  err :: "string list"
  world :: "'w"

subsection \<open>Python primitives used by the source\<close>

text \<open>\<open>str.strip()\<close> removes, at both ends, the characters for which \<open>str.isspace()\<close>
  holds. These are their UTF-8 encodings.\<close>

definition whitespace :: "string list" where
  "whitespace =
    [[CHR 0x09], [CHR 0x0A], [CHR 0x0B], [CHR 0x0C], [CHR 0x0D],
     [CHR 0x1C], [CHR 0x1D], [CHR 0x1E], [CHR 0x1F], [CHR 0x20],
     [CHR 0xC2, CHR 0x85], [CHR 0xC2, CHR 0xA0],
     [CHR 0xE1, CHR 0x9A, CHR 0x80],
     [CHR 0xE2, CHR 0x80, CHR 0x80], [CHR 0xE2, CHR 0x80, CHR 0x81],
     [CHR 0xE2, CHR 0x80, CHR 0x82], [CHR 0xE2, CHR 0x80, CHR 0x83],
     [CHR 0xE2, CHR 0x80, CHR 0x84], [CHR 0xE2, CHR 0x80, CHR 0x85],
     [CHR 0xE2, CHR 0x80, CHR 0x86], [CHR 0xE2, CHR 0x80, CHR 0x87],
     [CHR 0xE2, CHR 0x80, CHR 0x88], [CHR 0xE2, CHR 0x80, CHR 0x89],
     [CHR 0xE2, CHR 0x80, CHR 0x8A],
     [CHR 0xE2, CHR 0x80, CHR 0xA8], [CHR 0xE2, CHR 0x80, CHR 0xA9],
     [CHR 0xE2, CHR 0x80, CHR 0xAF],
     [CHR 0xE2, CHR 0x81, CHR 0x9F],
     [CHR 0xE3, CHR 0x80, CHR 0x80]]"

function lstrip_with :: "string list \<Rightarrow> string \<Rightarrow> string" where
  "lstrip_with ws s =
     (case List.find (\<lambda>w. w \<noteq> [] \<and> prefix w s) ws of
        None \<Rightarrow> s
      | Some w \<Rightarrow> lstrip_with ws (drop (length w) s))"
  by pat_completeness auto
termination
proof (relation "measure (\<lambda>(ws, s). length s)")
  show "wf (measure (\<lambda>(ws, s). length s))" by simp
next
  fix ws :: "string list" and s w :: string
  assume "List.find (\<lambda>w. w \<noteq> [] \<and> prefix w s) ws = Some w"
  then have "w \<noteq> []" and "prefix w s"
    by (auto simp: find_Some_iff)
  then have "s \<noteq> []" by auto
  with \<open>w \<noteq> []\<close> show "((ws, drop (length w) s), (ws, s)) \<in> measure (\<lambda>(ws, s). length s)"
    by simp
qed

declare lstrip_with.simps [simp del]

definition py_strip :: "string \<Rightarrow> string" where
  "py_strip s = rev (lstrip_with (map rev whitespace) (rev (lstrip_with whitespace s)))"

text \<open>\<open>str(n)\<close> for an integer: decimal digits, with a minus sign.\<close>

definition digit :: "nat \<Rightarrow> char" where
  "digit d = char_of (48 + d)"

function show_nat :: "nat \<Rightarrow> string" where
  "show_nat n = (if n < 10 then [digit n] else show_nat (n div 10) @ [digit (n mod 10)])"
  by pat_completeness auto
termination
  by (relation "measure id") auto

declare show_nat.simps [simp del]

definition show_int :: "int \<Rightarrow> string" where
  "show_int i = (if i < 0 then CHR ''-'' # show_nat (nat (- i)) else show_nat (nat i))"

text \<open>What an f-string puts in place of \<open>{v}\<close>: \<open>str(v)\<close>.\<close>

definition py_str :: "'w env \<Rightarrow> json \<Rightarrow> string" where
  "py_str env v =
     (case v of
        JNull \<Rightarrow> ''None''
      | JBool b \<Rightarrow> (if b then ''True'' else ''False'')
      | JInt i \<Rightarrow> show_int i
      | JStr s \<Rightarrow> s
      | _ \<Rightarrow> repr_other env v)"

text \<open>\<open>type(v).__name__\<close>, as it appears in the text of an \<open>AttributeError\<close>.\<close>

definition type_name :: "json \<Rightarrow> string" where
  "type_name v =
     (case v of
        JNull \<Rightarrow> ''NoneType''
      | JBool _ \<Rightarrow> ''bool''
      | JInt _ \<Rightarrow> ''int''
      | JFloat _ \<Rightarrow> ''float''
      | JStr _ \<Rightarrow> ''str''
      | JArr _ \<Rightarrow> ''list''
      | JObj _ \<Rightarrow> ''dict'')"

definition no_attribute :: "json \<Rightarrow> string \<Rightarrow> py_exn" where
  "no_attribute v a =
     AttributeError ([CHR 0x27] @ type_name v @ [CHR 0x27] @ '' object has no attribute ''
                     @ [CHR 0x27] @ a @ [CHR 0x27])"

text \<open>\<open>str(e)\<close>; for a \<open>KeyError\<close> it is the \<open>repr\<close> of the key, and the keys the
  bridge looks up are plain identifiers.\<close>

definition exn_str :: "py_exn \<Rightarrow> string" where
  "exn_str e =
     (case e of
        JSONDecodeError m \<Rightarrow> m
      | AttributeError m \<Rightarrow> m
      | KeyError k \<Rightarrow> [CHR 0x27] @ k @ [CHR 0x27]
      | TypeError m \<Rightarrow> m
      | ConnectionError \<Rightarrow> ''''
      | UnicodeDecodeError m \<Rightarrow> m
      | OtherException m \<Rightarrow> m)"

text \<open>\<open>v.get(k, d)\<close>: only a dict has the method.\<close>

definition py_get :: "json \<Rightarrow> string \<Rightarrow> json \<Rightarrow> py_exn + json" where
  "py_get v k d =
     (case v of
        JObj kvs \<Rightarrow> (case map_of kvs k of None \<Rightarrow> Inr d | Some x \<Rightarrow> Inr x)
      | _ \<Rightarrow> Inl (no_attribute v ''get''))"

text \<open>\<open>v[k]\<close> with a string key: \<open>KeyError\<close> on a dict without the key, \<open>TypeError\<close> on
  anything that is not a dict.\<close>

definition py_subscript :: "'w env \<Rightarrow> json \<Rightarrow> string \<Rightarrow> py_exn + json" where
  "py_subscript env v k =
     (case v of
        JObj kvs \<Rightarrow> (case map_of kvs k of None \<Rightarrow> Inl (KeyError k) | Some x \<Rightarrow> Inr x)
      | _ \<Rightarrow> Inl (TypeError (subscript_msg env v)))"

text \<open>\<open>v.items()\<close>.\<close>

definition py_items :: "json \<Rightarrow> py_exn + (string \<times> json) list" where
  "py_items v = (case v of JObj kvs \<Rightarrow> Inr kvs | _ \<Rightarrow> Inl (no_attribute v ''items''))"

text \<open>\<open>sep.join(xs)\<close>.\<close>

fun py_join :: "string \<Rightarrow> string list \<Rightarrow> string" where
  "py_join sep [] = []"
| "py_join sep [x] = x"
| "py_join sep (x # y # ys) = x @ sep @ py_join sep (y # ys)"

subsection \<open>Writing to the two streams\<close>

text \<open>The backend's address, fixed for the life of the process: \<open>http_post\<close> is the
  POST to \<open>HTTP_SERVER/mcp/tool/weather_info\<close>, \<open>http_get\<close> the GET of \<open>HTTP_SERVER/mcp\<close>.\<close>

definition HTTP_SERVER :: string where
  "HTTP_SERVER = ''http://localhost:3000''"

definition log_error :: "string \<Rightarrow> 'w state \<Rightarrow> 'w state" where
  "log_error message st = st\<lparr>err := err st @ [''ERROR: '' @ message]\<rparr>"

text \<open>\<open>send_response\<close> dumps the response on one line of standard output and flushes:
  one call, one frame.\<close>

definition send_response :: "json \<Rightarrow> 'w state \<Rightarrow> 'w state" where
  "send_response response st = st\<lparr>out := out st @ [response]\<rparr>"

text \<open>The two shapes of the dict literals that the source hands to \<open>send_response\<close>.\<close>

definition result_response :: "json \<Rightarrow> json \<Rightarrow> json" where
  "result_response request_id result =
     JObj [(''jsonrpc'', JStr ''2.0''), (''id'', request_id), (''result'', result)]"

definition error_response :: "json \<Rightarrow> int \<Rightarrow> json \<Rightarrow> json" where
  "error_response request_id code message =
     JObj [(''jsonrpc'', JStr ''2.0''), (''id'', request_id),
           (''error'', JObj [(''code'', JInt code), (''message'', message)])]"

subsection \<open>The handlers\<close>

definition handle_initialize :: "json \<Rightarrow> 'w state \<Rightarrow> 'w state" where
  "handle_initialize request_id st =
     send_response (result_response request_id
       (JObj [(''protocolVersion'', JStr ''2024-11-05''),
              (''capabilities'', JObj [(''tools'', JObj [])]),
              (''serverInfo'', JObj [(''name'', JStr ''rust-weather-api''),
                                     (''version'', JStr ''0.3.0'')])])) st"

definition handle_list_tools :: "json \<Rightarrow> 'w state \<Rightarrow> 'w state" where
  "handle_list_tools request_id st =
     send_response (result_response request_id
       (JObj [(''tools'', JArr
          [JObj [(''name'', JStr ''weather_info''),
                 (''description'',
                    JStr ''Get weather information for specified cities from Rust Weather API''),
                 (''inputSchema'', JObj
                    [(''type'', JStr ''object''),
                     (''properties'', JObj
                        [(''cities'', JObj
                           [(''type'', JStr ''array''),
                            (''items'', JObj [(''type'', JStr ''string'')]),
                            (''description'', JStr ''List of city names (max 20)'')])]),
                     (''required'', JArr [JStr ''cities''])])]])])) st"

definition handle_ping :: "json \<Rightarrow> 'w state \<Rightarrow> 'w state" where
  "handle_ping request_id st = send_response (result_response request_id (JObj [])) st"

text \<open>The two non-ASCII characters of the report, in UTF-8: U+1F30D and U+00B0.\<close>

definition globe :: string where
  "globe = [CHR 0xF0, CHR 0x9F, CHR 0x8C, CHR 0x8D]"

definition degree :: string where
  "degree = [CHR 0xC2, CHR 0xB0]"

text \<open>The body of the \<open>for city, info in data['results'].items()\<close> loop: five lines
  appended per city; a lookup that raises ends the loop with the exception. The four
  lookups happen in the order of the source.\<close>

fun format_cities :: "'w env \<Rightarrow> (string \<times> json) list \<Rightarrow> string list \<Rightarrow> py_exn + string list" where
  "format_cities env [] results_text = Inr results_text"
| "format_cities env ((city, info) # rest) results_text =
     (case py_subscript env info ''temperature'' of Inl e \<Rightarrow> Inl e | Inr t \<Rightarrow>
     (case py_subscript env info ''condition'' of Inl e \<Rightarrow> Inl e | Inr c \<Rightarrow>
     (case py_subscript env info ''humidity'' of Inl e \<Rightarrow> Inl e | Inr h \<Rightarrow>
     (case py_subscript env info ''wind_speed'' of Inl e \<Rightarrow> Inl e | Inr w \<Rightarrow>
        format_cities env rest
          (results_text @
            [[CHR 0x0A] @ globe @ '' '' @ city,
             ''   Temperature: '' @ py_str env t @ degree @ ''C'',
             ''   Condition: '' @ py_str env c,
             ''   Humidity: '' @ py_str env h @ ''%'',
             ''   Wind Speed: '' @ py_str env w @ '' km/h''])))))"

text \<open>Lines 95 to 107: the lines of the report for a decoded body.\<close>

definition format_results :: "'w env \<Rightarrow> json \<Rightarrow> py_exn + string list" where
  "format_results env data =
     (case py_subscript env data ''timestamp'' of Inl e \<Rightarrow> Inl e | Inr ts \<Rightarrow>
     (case py_subscript env data ''results'' of Inl e \<Rightarrow> Inl e | Inr results \<Rightarrow>
     (case py_items results of Inl e \<Rightarrow> Inl e | Inr items \<Rightarrow>
        format_cities env items
          [''Weather Information (Retrieved: '' @ py_str env ts @ '')'',
           replicate 60 CHR ''=''])))"

text \<open>The body of the \<open>try\<close> after \<open>requests.post\<close> has come back: the response it
  hands to \<open>send_response\<close>, or the exception raised on the way.\<close>

definition http_result :: "'w env \<Rightarrow> json \<Rightarrow> http_outcome \<Rightarrow> py_exn + json" where
  "http_result env request_id outcome =
     (case outcome of
        HttpRaises e \<Rightarrow> Inl e
      | HttpResponse status_code body \<Rightarrow>
          if status_code = 200 then
            (case body of Inl e \<Rightarrow> Inl e | Inr data \<Rightarrow>
            (case format_results env data of Inl e \<Rightarrow> Inl e | Inr results_text \<Rightarrow>
               Inr (result_response request_id
                     (JObj [(''content'', JArr
                        [JObj [(''type'', JStr ''text''),
                               (''text'', JStr (py_join [CHR 0x0A] results_text))]])]))))
          else
            (case body of Inl e \<Rightarrow> Inl e | Inr error_data \<Rightarrow>
            (case py_get error_data ''error'' (JStr ''HTTP request failed'') of
               Inl e \<Rightarrow> Inl e
             | Inr message \<Rightarrow> Inr (error_response request_id status_code message))))"

definition connect_message :: string where
  "connect_message = ''Cannot connect to Rust Weather API server. Please ensure ''
     @ [CHR 0x27] @ ''cargo run --bin server'' @ [CHR 0x27] @ '' is running on port 3000.''"

text \<open>\<open>handle_call_tool\<close>. The two \<open>params.get\<close> are outside the \<open>try\<close>: their
  \<open>AttributeError\<close> leaves the function (\<open>Inl\<close>), before anything is written.\<close>

definition handle_call_tool ::
  "'w env \<Rightarrow> json \<Rightarrow> json \<Rightarrow> 'w state \<Rightarrow> py_exn + 'w state" where
  "handle_call_tool env request_id params st =
     (case py_get params ''name'' JNull of Inl e \<Rightarrow> Inl e | Inr tool_name \<Rightarrow>
     (case py_get params ''arguments'' (JObj []) of Inl e \<Rightarrow> Inl e | Inr arguments \<Rightarrow>
        if tool_name \<noteq> JStr ''weather_info'' then
          Inr (send_response
                (error_response request_id (- 32601)
                   (JStr (''Unknown tool: '' @ py_str env tool_name))) st)
        else
          (case http_post env (world st) arguments of (outcome, w') \<Rightarrow>
           let st1 = st\<lparr>world := w'\<rparr> in
           (case http_result env request_id outcome of
              Inr response \<Rightarrow> Inr (send_response response st1)
            | Inl ConnectionError \<Rightarrow>
                Inr (send_response
                      (error_response request_id (- 32603) (JStr connect_message)) st1)
            | Inl e \<Rightarrow>
                Inr (send_response
                      (error_response request_id (- 32603)
                         (JStr (''Internal error: '' @ exn_str e)))
                      (log_error (''Error calling HTTP endpoint: '' @ exn_str e) st1))))))"

subsection \<open>The main loop\<close>

text \<open>The body of the \<open>try\<close> for a request that \<open>json.loads\<close> has decoded: the
  exception it ends with, if any, and the state reached.\<close>

definition dispatch :: "'w env \<Rightarrow> json \<Rightarrow> 'w state \<Rightarrow> py_exn option \<times> 'w state" where
  "dispatch env request st =
     (case py_get request ''id'' JNull of Inl e \<Rightarrow> (Some e, st) | Inr request_id \<Rightarrow>
     (case py_get request ''method'' JNull of Inl e \<Rightarrow> (Some e, st) | Inr method \<Rightarrow>
     (case py_get request ''params'' (JObj []) of Inl e \<Rightarrow> (Some e, st) | Inr params \<Rightarrow>
        let st1 = log_error (''Received request: '' @ py_str env method) st in
        if method = JStr ''initialize'' then (None, handle_initialize request_id st1)
        else if method = JStr ''tools/list'' then (None, handle_list_tools request_id st1)
        else if method = JStr ''tools/call'' then
          (case handle_call_tool env request_id params st1 of
             Inl e \<Rightarrow> (Some e, st1)
           | Inr st2 \<Rightarrow> (None, st2))
        else if method = JStr ''ping'' then (None, handle_ping request_id st1)
        else if method = JStr ''notifications/initialized'' then (None, st1)
        else
          (None, send_response
                   (error_response request_id (- 32601)
                      (JStr (''Method not found: '' @ py_str env method))) st1))))"

text \<open>The body of \<open>for line in sys.stdin\<close> for a line that the iterator has yielded:
  the \<open>try\<close> with its two \<open>except\<close> clauses.\<close>

definition process_line :: "'w env \<Rightarrow> string \<Rightarrow> 'w state \<Rightarrow> 'w state" where
  "process_line env line0 st =
     (let line = py_strip line0 in
      if line = [] then st
      else
        (case loads env line of
           Inl (JSONDecodeError m) \<Rightarrow> log_error (''Invalid JSON: '' @ m) st
         | Inl e \<Rightarrow> log_error (''Error processing request: '' @ exn_str e) st
         | Inr request \<Rightarrow>
             (case dispatch env request st of
                (None, st') \<Rightarrow> st'
              | (Some (JSONDecodeError m), st') \<Rightarrow> log_error (''Invalid JSON: '' @ m) st'
              | (Some e, st') \<Rightarrow>
                  log_error (''Error processing request: '' @ exn_str e) st')))"

text \<open>
  The loop \<open>for line in sys.stdin\<close>. The input is what the iterator of \<open>sys.stdin\<close>
  yields, in order: a line of text (\<open>Inr\<close>), or the exception it raises (\<open>Inl\<close>), which
  is a \<open>UnicodeDecodeError\<close> when the stream's decoder meets bytes it rejects. The \<open>for\<close>
  statement stands outside the \<open>try\<close> of its body: an exception of the iterator leaves
  the loop and \<open>main\<close>, the process ends with it and what follows is never read. At the
  end of the input the loop ends without an exception. The result is the exception
  that ended the loop, if any, and the state reached.
\<close>

fun main_loop ::
  "'w env \<Rightarrow> (py_exn + string) list \<Rightarrow> 'w state \<Rightarrow> py_exn option \<times> 'w state" where
  "main_loop env [] st = (None, st)"
| "main_loop env (Inl e # rest) st = (Some e, st)"
| "main_loop env (Inr line # rest) st = main_loop env rest (process_line env line st)"

text \<open>\<open>main\<close>: the start-up message, the advisory probe of the backend, then the loop
  over standard input.\<close>

definition main ::
  "'w env \<Rightarrow> (py_exn + string) list \<Rightarrow> 'w \<Rightarrow> py_exn option \<times> 'w state" where
  "main env stdin w =
     (let st0 = log_error ''MCP stdio bridge started'' \<lparr>out = [], err = [], world = w\<rparr> in
      case http_get env (world st0) of (probe, w') \<Rightarrow>
        let st1 = st0\<lparr>world := w'\<rparr>;
            st2 = (case probe of
                     Some status_code \<Rightarrow>
                       if status_code = 200 then
                         log_error ''Successfully connected to Rust Weather API HTTP server'' st1
                       else
                         log_error
                           ''WARNING: Rust Weather API HTTP server returned unexpected status'' st1
                   | None \<Rightarrow>
                       log_error ''Please start the server with: cargo run --bin server''
                         (log_error
                           ''WARNING: Cannot connect to Rust Weather API HTTP server on port 3000''
                           st1))
        in main_loop env stdin st2)"

subsection \<open>Notions used to state the properties\<close>

text \<open>The dict a line decodes to, if it is not blank and \<open>json.loads\<close> makes a dict
  of it: the requests of the protocol.\<close>

definition request_of :: "'w env \<Rightarrow> string \<Rightarrow> (string \<times> json) list option" where
  "request_of env line0 =
     (let line = py_strip line0 in
      if line = [] then None
      else (case loads env line of Inr (JObj kvs) \<Rightarrow> Some kvs | _ \<Rightarrow> None))"

text \<open>A field of a request, with the value that stands for an absent one.\<close>

definition field :: "(string \<times> json) list \<Rightarrow> string \<Rightarrow> json \<Rightarrow> json" where
  "field kvs k d = (case map_of kvs k of None \<Rightarrow> d | Some v \<Rightarrow> v)"

definition method_of :: "(string \<times> json) list \<Rightarrow> json" where
  "method_of kvs = field kvs ''method'' JNull"

definition is_dict :: "json \<Rightarrow> bool" where
  "is_dict v = (case v of JObj _ \<Rightarrow> True | _ \<Rightarrow> False)"

text \<open>The requests the dispatcher answers: every method but the acknowledged
  notification, with, for \<open>tools/call\<close>, parameters that are a dict (or absent).\<close>

definition answered :: "(string \<times> json) list \<Rightarrow> bool" where
  "answered kvs =
     (method_of kvs \<noteq> JStr ''notifications/initialized'' \<and>
      (method_of kvs \<noteq> JStr ''tools/call'' \<or> is_dict (field kvs ''params'' (JObj []))))"

definition recognized_methods :: "json list" where
  "recognized_methods =
     [JStr ''initialize'', JStr ''tools/list'', JStr ''tools/call'', JStr ''ping'',
      JStr ''notifications/initialized'']"

text \<open>The \<open>id\<close> a frame carries.\<close>

definition response_id :: "json \<Rightarrow> json option" where
  "response_id r = (case r of JObj kvs \<Rightarrow> map_of kvs ''id'' | _ \<Rightarrow> None)"

text \<open>The frames written between two states, and a state with nothing written yet.\<close>

definition frames_since :: "'w state \<Rightarrow> 'w state \<Rightarrow> json list" where
  "frames_since st st' = drop (length (out st)) (out st')"

definition fresh :: "'w \<Rightarrow> 'w state" where
  "fresh w = \<lparr>out = [], err = [], world = w\<rparr>"

definition onto :: "'w state \<Rightarrow> 'w state \<Rightarrow> 'w state" where
  "onto st s = s\<lparr>out := out st @ out s, err := err st @ err s\<rparr>"

text \<open>The report as the specification describes it: a header line with the timestamp,
  a rule of sixty \<open>=\<close>, then for each city, in the order received, a block of five
  lines with its name, temperature, condition, humidity and wind speed; the lines are
  joined by newlines.\<close>

definition city_fields :: "json \<Rightarrow> (json \<times> json \<times> json \<times> json) option" where
  "city_fields info =
     (case info of
        JObj kvs \<Rightarrow>
          (case (map_of kvs ''temperature'', map_of kvs ''condition'',
                 map_of kvs ''humidity'', map_of kvs ''wind_speed'') of
             (Some t, Some c, Some h, Some w) \<Rightarrow> Some (t, c, h, w)
           | _ \<Rightarrow> None)
      | _ \<Rightarrow> None)"

definition city_block :: "'w env \<Rightarrow> string \<times> json \<Rightarrow> string list" where
  "city_block env ci =
     (case city_fields (snd ci) of
        None \<Rightarrow> []
      | Some (t, c, h, w) \<Rightarrow>
          [[CHR 0x0A] @ globe @ '' '' @ fst ci,
           ''   Temperature: '' @ py_str env t @ degree @ ''C'',
           ''   Condition: '' @ py_str env c,
           ''   Humidity: '' @ py_str env h @ ''%'',
           ''   Wind Speed: '' @ py_str env w @ '' km/h''])"

definition report :: "'w env \<Rightarrow> json \<Rightarrow> (string \<times> json) list \<Rightarrow> string" where
  "report env ts cities =
     py_join [CHR 0x0A]
       ([''Weather Information (Retrieved: '' @ py_str env ts @ '')'', replicate 60 CHR ''='']
        @ concat (map (city_block env) cities))"

text \<open>A decoded body that lacks an expected field: the top-level \<open>timestamp\<close> or
  \<open>results\<close>, or one of the four fields of some city's record.\<close>

definition missing_field :: "json \<Rightarrow> bool" where
  "missing_field data =
     (case data of
        JObj kvs \<Rightarrow>
          map_of kvs ''timestamp'' = None \<or> map_of kvs ''results'' = None \<or>
          (case map_of kvs ''results'' of
             Some (JObj cities) \<Rightarrow>
               list_ex (\<lambda>ci. is_dict (snd ci) \<and> city_fields (snd ci) = None) cities
           | _ \<Rightarrow> False)
      | _ \<Rightarrow> False)"

text \<open>The \<open>id\<close> of the request on a line, and the lines of the first property:
  requests that carry an \<open>id\<close> and that the dispatcher answers.\<close>

definition line_id :: "'w env \<Rightarrow> string \<Rightarrow> json option" where
  "line_id env line0 =
     (case request_of env line0 of None \<Rightarrow> None | Some kvs \<Rightarrow> map_of kvs ''id'')"

definition answerable :: "'w env \<Rightarrow> string \<Rightarrow> bool" where
  "answerable env line0 =
     (case request_of env line0 of
        None \<Rightarrow> False
      | Some kvs \<Rightarrow> map_of kvs ''id'' \<noteq> None \<and> answered kvs)"

text \<open>Lines that carry no request: blank ones, and ones that \<open>json.loads\<close> rejects
  with a \<open>JSONDecodeError\<close>, whose text is \<open>decode_error\<close>.\<close>

definition blank :: "string \<Rightarrow> bool" where
  "blank line0 = (py_strip line0 = [])"

definition invalid_json :: "'w env \<Rightarrow> string \<Rightarrow> bool" where
  "invalid_json env line0 =
     (\<not> blank line0 \<and>
      (case loads env (py_strip line0) of Inl (JSONDecodeError m) \<Rightarrow> True | _ \<Rightarrow> False))"

definition decode_error :: "'w env \<Rightarrow> string \<Rightarrow> string" where
  "decode_error env line0 =
     (case loads env (py_strip line0) of Inl (JSONDecodeError m) \<Rightarrow> m | _ \<Rightarrow> [])"

subsection \<open>A scripted environment for concrete runs\<close>

text \<open>A decoder that knows a handful of request lines (and rejects every other text,
  as \<open>json.loads\<close> rejects what is not JSON), and a backend that plays back a script
  of outcomes, one per request, refusing the connection once the script is over.\<close>

definition line_ping :: string where
  \<open>line_ping = ''{"jsonrpc":"2.0","id":1,"method":"ping"}''\<close>

definition line_ping_no_id :: string where
  \<open>line_ping_no_id = ''{"jsonrpc":"2.0","method":"ping"}''\<close>

definition line_initialized :: string where
  \<open>line_initialized = ''{"jsonrpc":"2.0","id":7,"method":"notifications/initialized"}''\<close>

definition line_call :: string where
  \<open>line_call = ''{"jsonrpc":"2.0","id":2,"method":"tools/call","params":''
     @ ''{"name":"weather_info","arguments":{"cities":["Paris"]}}}''\<close>

definition line_resources :: string where
  \<open>line_resources = ''{"jsonrpc":"2.0","id":4,"method":"resources/list"}''\<close>

definition line_no_method :: string where
  \<open>line_no_method = ''{"jsonrpc":"2.0","id":5}''\<close>

definition params_call :: "(string \<times> json) list" where
  "params_call =
     [(''name'', JStr ''weather_info''),
      (''arguments'', JObj [(''cities'', JArr [JStr ''Paris''])])]"

definition demo_requests :: "(string \<times> json) list" where
  "demo_requests =
     [(line_ping,
       JObj [(''jsonrpc'', JStr ''2.0''), (''id'', JInt 1), (''method'', JStr ''ping'')]),
      (line_ping_no_id,
       JObj [(''jsonrpc'', JStr ''2.0''), (''method'', JStr ''ping'')]),
      (line_initialized,
       JObj [(''jsonrpc'', JStr ''2.0''), (''id'', JInt 7),
             (''method'', JStr ''notifications/initialized'')]),
      (line_call,
       JObj [(''jsonrpc'', JStr ''2.0''), (''id'', JInt 2), (''method'', JStr ''tools/call''),
             (''params'', JObj params_call)]),
      (line_resources,
       JObj [(''jsonrpc'', JStr ''2.0''), (''id'', JInt 4),
             (''method'', JStr ''resources/list'')]),
      (line_no_method, JObj [(''jsonrpc'', JStr ''2.0''), (''id'', JInt 5)])]"

definition demo_env :: "http_outcome list env" where
  "demo_env =
     \<lparr>loads = (\<lambda>s. case map_of demo_requests s of
                      None \<Rightarrow> Inl (JSONDecodeError ''Expecting value'')
                    | Some v \<Rightarrow> Inr v),
      repr_other = (\<lambda>v. ''...''),
      subscript_msg = (\<lambda>v. ''indices must be integers''),
      http_post = (\<lambda>w body. case w of
                      [] \<Rightarrow> (HttpRaises ConnectionError, [])
                    | outcome # rest \<Rightarrow> (outcome, rest)),
      http_get = (\<lambda>w. (None, w))\<rparr>"

text \<open>What the iterator raises on a line that starts with the byte \<open>0xFF\<close>.\<close>

definition undecodable :: py_exn where
  "undecodable = UnicodeDecodeError ''invalid start byte''"

definition paris_body :: json where
  "paris_body =
     JObj [(''timestamp'', JStr ''2024-01-01T00:00:00Z''),
           (''results'', JObj
              [(''Paris'', JObj [(''temperature'', JInt 18), (''condition'', JStr ''Cloudy''),
                                 (''humidity'', JInt 60), (''wind_speed'', JInt 12)])])]"

section \<open>Properties\<close>

subsection \<open>What the bridge writes does not depend on what it wrote before\<close>

text \<open>Running any part of the bridge from a state that already holds output gives the
  same as running it from the state without that output and putting the output in
  front: the bridge never reads its two streams back.\<close>

lemma send_response_sel [simp]:
  "out (send_response r st) = out st @ [r]"
  "err (send_response r st) = err st"
  "world (send_response r st) = world st"
  by (simp_all add: send_response_def)

lemma log_error_sel [simp]:
  "out (log_error m st) = out st"
  "err (log_error m st) = err st @ [''ERROR: '' @ m]"
  "world (log_error m st) = world st"
  by (simp_all add: log_error_def)

lemma onto_sel [simp]:
  "out (onto st s) = out st @ out s"
  "err (onto st s) = err st @ err s"
  "world (onto st s) = world s"
  by (simp_all add: onto_def)

lemma fresh_sel [simp]:
  "out (fresh w) = []" "err (fresh w) = []" "world (fresh w) = w"
  by (simp_all add: fresh_def)

lemma state_eqI:
  fixes s t :: "'w state"
  assumes "out s = out t" "err s = err t" "world s = world t"
  shows "s = t"
  using assms by (cases s, cases t) simp

lemma onto_send: "send_response r (onto st s) = onto st (send_response r s)"
  by (rule state_eqI) simp_all

lemma onto_log: "log_error m (onto st s) = onto st (log_error m s)"
  by (rule state_eqI) simp_all

lemma onto_fresh: "onto st (fresh (world st)) = st"
  by (rule state_eqI) simp_all

lemma onto_world: "(onto st s)\<lparr>world := w\<rparr> = onto st (s\<lparr>world := w\<rparr>)"
  by (rule state_eqI) simp_all

lemma handle_call_tool_onto:
  "handle_call_tool env rid params (onto st s) =
     map_sum id (onto st) (handle_call_tool env rid params s)"
  by (simp add: handle_call_tool_def Let_def onto_send onto_log onto_world
        split: sum.splits prod.splits py_exn.splits)

lemma dispatch_onto:
  "dispatch env request (onto st s) = map_prod id (onto st) (dispatch env request s)"
  by (simp add: dispatch_def Let_def handle_initialize_def handle_list_tools_def
        handle_ping_def onto_send onto_log handle_call_tool_onto
        split: sum.splits)

lemma process_line_onto:
  "process_line env l (onto st s) = onto st (process_line env l s)"
  by (simp add: process_line_def Let_def dispatch_onto onto_log
        split: sum.splits prod.splits py_exn.splits option.splits)

lemma main_loop_onto:
  "main_loop env items (onto st s) = map_prod id (onto st) (main_loop env items s)"
  by (induction env items s rule: main_loop.induct) (simp_all add: process_line_onto)

lemma process_line_fresh:
  "process_line env l st = onto st (process_line env l (fresh (world st)))"
  using process_line_onto [of env l st "fresh (world st)"] by (simp add: onto_fresh)

lemma main_loop_fresh:
  "main_loop env items st = map_prod id (onto st) (main_loop env items (fresh (world st)))"
  using main_loop_onto [of env items st "fresh (world st)"] by (simp add: onto_fresh)

lemma main_loop_append:
  "main_loop env (xs @ ys) st =
     (case main_loop env xs st of
        (None, st') \<Rightarrow> main_loop env ys st'
      | (Some e, st') \<Rightarrow> (Some e, st'))"
  by (induction env xs st rule: main_loop.induct) simp_all

lemma main_loop_text: "fst (main_loop env (map Inr ls) st) = None"
  by (induction ls arbitrary: st) simp_all

subsection \<open>The tool call on a dict of parameters\<close>

lemma py_get_dict [simp]: "py_get (JObj kvs) k d = Inr (field kvs k d)"
  by (simp add: py_get_def field_def split: option.splits)

lemma py_get_not_dict: "\<not> is_dict v \<Longrightarrow> py_get v k d = Inl (no_attribute v ''get'')"
  by (cases v) (simp_all add: py_get_def is_dict_def)

lemma handle_call_tool_dict:
  "handle_call_tool env rid (JObj p) st =
     (if field p ''name'' JNull \<noteq> JStr ''weather_info'' then
        Inr (send_response
              (error_response rid (- 32601)
                 (JStr (''Unknown tool: '' @ py_str env (field p ''name'' JNull)))) st)
      else
        (case http_post env (world st) (field p ''arguments'' (JObj [])) of (outcome, w') \<Rightarrow>
         (case http_result env rid outcome of
            Inr response \<Rightarrow> Inr (send_response response (st\<lparr>world := w'\<rparr>))
          | Inl e \<Rightarrow>
              if e = ConnectionError then
                Inr (send_response
                      (error_response rid (- 32603) (JStr connect_message)) (st\<lparr>world := w'\<rparr>))
              else
                Inr (send_response
                      (error_response rid (- 32603) (JStr (''Internal error: '' @ exn_str e)))
                      (log_error (''Error calling HTTP endpoint: '' @ exn_str e)
                         (st\<lparr>world := w'\<rparr>))))))"
  by (simp add: handle_call_tool_def Let_def split: sum.splits prod.splits py_exn.splits)

lemma py_str_http_post [simp]: "py_str (env\<lparr>http_post := f\<rparr>) v = py_str env v"
  by (cases v) (simp_all add: py_str_def)

subsection \<open>Unknown tools\<close>

text \<open>
  Claim C4. A \<open>tools/call\<close> whose parameters name any tool other than \<open>weather_info\<close>
  (an absent name is \<open>None\<close>) is answered with error \<open>-32601\<close> and the message
  \<open>Unknown tool: <name>\<close>, whatever the arguments are. Nothing is sent to the backend:
  the answer and the state are the same for every behaviour \<open>f\<close> of \<open>requests.post\<close>, and
  the backend's state is left as it was.
\<close>

theorem unknown_tool_rejected:
  assumes "field p ''name'' JNull \<noteq> JStr ''weather_info''"
  shows "\<forall>f. handle_call_tool (env\<lparr>http_post := f\<rparr>) request_id (JObj p) st =
           Inr (send_response
                 (error_response request_id (- 32601)
                    (JStr (''Unknown tool: '' @ py_str env (field p ''name'' JNull)))) st)"
  using assms by (simp add: handle_call_tool_dict)

theorem unknown_tool_rejected_witness:
  "field [(''name'', JStr ''forecast''), (''arguments'', JObj [])] ''name'' JNull
     \<noteq> JStr ''weather_info'' \<and>
   handle_call_tool demo_env (JInt 3)
     (JObj [(''name'', JStr ''forecast''), (''arguments'', JObj [])]) (fresh [HttpResponse 200 (Inr paris_body)]) =
   Inr \<lparr>out = [JObj [(''jsonrpc'', JStr ''2.0''), (''id'', JInt 3),
                      (''error'', JObj [(''code'', JInt (- 32601)),
                                        (''message'', JStr ''Unknown tool: forecast'')])]],
        err = [], world = [HttpResponse 200 (Inr paris_body)]\<rparr>"
proof -
  have h: "field [(''name'', JStr ''forecast''), (''arguments'', JObj [])] ''name'' JNull
     \<noteq> JStr ''weather_info''"
    by (simp add: field_def)
  have e: "demo_env\<lparr>http_post := http_post demo_env\<rparr> = demo_env" by simp
  from unknown_tool_rejected [OF h, of demo_env "JInt 3" "fresh [HttpResponse 200 (Inr paris_body)]"]
  have "handle_call_tool (demo_env\<lparr>http_post := http_post demo_env\<rparr>) (JInt 3)
     (JObj [(''name'', JStr ''forecast''), (''arguments'', JObj [])]) (fresh [HttpResponse 200 (Inr paris_body)]) =
     Inr (send_response
                 (error_response (JInt 3) (- 32601)
                    (JStr (''Unknown tool: '' @ py_str demo_env (field [(''name'', JStr ''forecast''), (''arguments'', JObj [])] ''name'' JNull)))) (fresh [HttpResponse 200 (Inr paris_body)]))"
    by blast
  then show ?thesis using h
    by (simp add: e field_def py_str_def send_response_def error_response_def fresh_def)
qed

subsection \<open>Formatting the report\<close>

lemma py_subscript_dict:
  "py_subscript env (JObj kvs) k =
     (case map_of kvs k of None \<Rightarrow> Inl (KeyError k) | Some x \<Rightarrow> Inr x)"
  by (simp add: py_subscript_def)

lemma py_subscript_not_connection: "py_subscript env v k \<noteq> Inl ConnectionError"
  by (cases v) (simp_all add: py_subscript_def split: option.splits)

lemma format_cities_step:
  assumes "city_fields info = Some (t, c, h, w)"
  shows "format_cities env ((city, info) # rest) acc =
           format_cities env rest (acc @ city_block env (city, info))"
proof -
  from assms obtain kvs where "info = JObj kvs"
    by (cases info) (simp_all add: city_fields_def)
  with assms have "map_of kvs ''temperature'' = Some t" "map_of kvs ''condition'' = Some c"
      "map_of kvs ''humidity'' = Some h" "map_of kvs ''wind_speed'' = Some w"
    by (auto simp: city_fields_def split: option.splits)
  with \<open>info = JObj kvs\<close> assms show ?thesis
    by (simp add: py_subscript_dict city_block_def)
qed

lemma format_cities_stop:
  assumes "city_fields info = None"
  shows "\<exists>e. format_cities env ((city, info) # rest) acc = Inl e \<and> e \<noteq> ConnectionError"
proof (cases info)
  case (JObj kvs)
  with assms show ?thesis
    by (auto simp: city_fields_def py_subscript_dict split: option.splits)
qed (simp_all add: py_subscript_def)

lemma format_cities_ok:
  "list_all (\<lambda>ci. city_fields (snd ci) \<noteq> None) cities \<Longrightarrow>
   format_cities env cities acc = Inr (acc @ concat (map (city_block env) cities))"
proof (induction cities arbitrary: acc)
  case Nil
  show ?case by simp
next
  case (Cons ci cities)
  obtain city info where ci: "ci = (city, info)" by (cases ci)
  with Cons.prems obtain t c h w where f: "city_fields info = Some (t, c, h, w)"
    by (cases "city_fields info") auto
  from Cons.prems have "list_all (\<lambda>ci. city_fields (snd ci) \<noteq> None) cities" by simp
  from Cons.IH [OF this] show ?case
    unfolding ci format_cities_step [OF f] by simp
qed

lemma format_cities_fails:
  "list_ex (\<lambda>ci. city_fields (snd ci) = None) cities \<Longrightarrow>
   \<exists>e. format_cities env cities acc = Inl e \<and> e \<noteq> ConnectionError"
proof (induction cities arbitrary: acc)
  case Nil
  then show ?case by simp
next
  case (Cons ci cities)
  obtain city info where ci: "ci = (city, info)" by (cases ci)
  show ?case
  proof (cases "city_fields info")
    case None
    from format_cities_stop [OF this] show ?thesis by (simp add: ci)
  next
    case (Some f)
    obtain t c h w where "f = (t, c, h, w)" by (cases f)
    with Some have f: "city_fields info = Some (t, c, h, w)" by simp
    from Cons.prems Some ci have "list_ex (\<lambda>ci. city_fields (snd ci) = None) cities" by simp
    from Cons.IH [OF this] show ?thesis
      unfolding ci format_cities_step [OF f] by simp
  qed
qed

lemma format_results_ok:
  assumes "map_of body ''timestamp'' = Some ts" "map_of body ''results'' = Some (JObj cities)"
    and "list_all (\<lambda>ci. city_fields (snd ci) \<noteq> None) cities"
  shows "\<exists>results_text. format_results env (JObj body) = Inr results_text \<and>
           py_join [CHR 0x0A] results_text = report env ts cities"
proof -
  have "format_results env (JObj body) =
          format_cities env cities
            [''Weather Information (Retrieved: '' @ py_str env ts @ '')'', replicate 60 CHR ''='']"
    using assms(1,2) by (simp add: format_results_def py_subscript_dict py_items_def)
  also have "\<dots> =
      Inr ([''Weather Information (Retrieved: '' @ py_str env ts @ '')'', replicate 60 CHR ''='']
           @ concat (map (city_block env) cities))"
    by (rule format_cities_ok [OF assms(3)])
  finally show ?thesis
    by (simp only: report_def sum.inject simp_thms ex_simps)
qed

lemma format_results_missing:
  assumes "missing_field data"
  shows "\<exists>e. format_results env data = Inl e \<and> e \<noteq> ConnectionError"
proof -
  from assms obtain kvs where d: "data = JObj kvs"
    by (cases data) (simp_all add: missing_field_def)
  show ?thesis
  proof (cases "map_of kvs ''timestamp''")
    case None
    then show ?thesis by (simp add: d format_results_def py_subscript_dict)
  next
    case ts: (Some ts)
    show ?thesis
    proof (cases "map_of kvs ''results''")
      case None
      then show ?thesis by (simp add: d ts format_results_def py_subscript_dict)
    next
      case (Some results)
      with assms d ts obtain cities where r: "results = JObj cities"
        and ex: "list_ex (\<lambda>ci. is_dict (snd ci) \<and> city_fields (snd ci) = None) cities"
        by (cases results) (simp_all add: missing_field_def)
      from ex have "list_ex (\<lambda>ci. city_fields (snd ci) = None) cities"
        by (auto simp: list_ex_iff)
      from format_cities_fails [OF this] show ?thesis
        by (simp add: d ts Some r format_results_def py_subscript_dict py_items_def)
    qed
  qed
qed

lemma show_int_examples: "show_int 18 = ''18''" "show_int 60 = ''60''" "show_int 12 = ''12''"
  by code_simp+

subsection \<open>The backend cannot be reached\<close>

text \<open>
  Claim C7. When \<open>requests.post\<close> for a call of \<open>weather_info\<close> raises a
  \<open>ConnectionError\<close>, the bridge answers with the fixed error code \<open>-32603\<close> and the
  message telling the operator that \<open>cargo run --bin server\<close> must be running on port
  3000; it writes that one frame and nothing to standard error.
\<close>

theorem backend_unreachable:
  assumes "field p ''name'' JNull = JStr ''weather_info''"
    and "http_post env (world st) (field p ''arguments'' (JObj [])) =
           (HttpRaises ConnectionError, w')"
  shows "handle_call_tool env request_id (JObj p) st =
           Inr (send_response
                 (error_response request_id (- 32603)
                    (JStr (''Cannot connect to Rust Weather API server. Please ensure ''
                           @ [CHR 0x27] @ ''cargo run --bin server'' @ [CHR 0x27]
                           @ '' is running on port 3000.'')))
                 (st\<lparr>world := w'\<rparr>))"
  using assms by (simp add: handle_call_tool_dict http_result_def connect_message_def)

theorem backend_unreachable_witness:
  "field params_call ''name'' JNull = JStr ''weather_info'' \<and>
   http_post demo_env (world (fresh [])) (field params_call ''arguments'' (JObj [])) =
     (HttpRaises ConnectionError, []) \<and>
   handle_call_tool demo_env (JInt 2) (JObj params_call) (fresh []) =
     Inr \<lparr>out = [JObj [(''jsonrpc'', JStr ''2.0''), (''id'', JInt 2),
                        (''error'', JObj [(''code'', JInt (- 32603)),
                           (''message'',
                            JStr (''Cannot connect to Rust Weather API server. Please ensure ''
                                  @ [CHR 0x27] @ ''cargo run --bin server'' @ [CHR 0x27]
                                  @ '' is running on port 3000.''))])]],
          err = [], world = []\<rparr>"
proof -
  have n: "field params_call ''name'' JNull = JStr ''weather_info''"
    by (simp add: field_def params_call_def)
  have p: "http_post demo_env (world (fresh [])) (field params_call ''arguments'' (JObj [])) =
     (HttpRaises ConnectionError, [])"
    by (simp add: demo_env_def fresh_def)
  from backend_unreachable [OF n p, of "JInt 2"] n p show ?thesis
    by (simp add: send_response_def error_response_def fresh_def)
qed

subsection \<open>The backend answers with a status other than 200\<close>

text \<open>
  Claim C3, as amended. For a call of \<open>weather_info\<close> that the backend answers with a
  status other than 200: when the body decodes to a JSON object, the error code is the
  HTTP status and the message is the object's \<open>error\<close> field, or \<open>HTTP request failed\<close>
  when the object has none. When the body cannot be decoded, or decodes to something
  that is not an object, \<open>response.json()\<close> or \<open>.get\<close> raises and the general handler
  answers with code \<open>-32603\<close> and the message \<open>Internal error: <description>\<close>, not
  with the HTTP status.
\<close>

theorem http_error_status:
  assumes "field p ''name'' JNull = JStr ''weather_info''"
    and "http_post env (world st) (field p ''arguments'' (JObj [])) =
           (HttpResponse status_code body, w')"
    and "status_code \<noteq> 200"
  shows "(\<forall>kvs. body = Inr (JObj kvs) \<longrightarrow>
            handle_call_tool env request_id (JObj p) st =
              Inr (send_response
                    (error_response request_id status_code
                       (field kvs ''error'' (JStr ''HTTP request failed'')))
                    (st\<lparr>world := w'\<rparr>))) \<and>
         (\<forall>m. body = Inl (JSONDecodeError m) \<longrightarrow>
            handle_call_tool env request_id (JObj p) st =
              Inr (send_response
                    (error_response request_id (- 32603) (JStr (''Internal error: '' @ m)))
                    (log_error (''Error calling HTTP endpoint: '' @ m) (st\<lparr>world := w'\<rparr>)))) \<and>
         (\<forall>v. body = Inr v \<and> \<not> is_dict v \<longrightarrow>
            handle_call_tool env request_id (JObj p) st =
              Inr (send_response
                    (error_response request_id (- 32603)
                       (JStr (''Internal error: '' @ exn_str (no_attribute v ''get''))))
                    (log_error (''Error calling HTTP endpoint: '' @ exn_str (no_attribute v ''get''))
                       (st\<lparr>world := w'\<rparr>))))"
  using assms
  by (auto simp: handle_call_tool_dict http_result_def exn_str_def py_get_not_dict no_attribute_def)

theorem http_error_status_witness:
  "field params_call ''name'' JNull = JStr ''weather_info'' \<and>
   handle_call_tool demo_env (JInt 2) (JObj params_call)
     (fresh [HttpResponse 404 (Inr (JObj [(''error'', JStr ''city not found'')]))]) =
     Inr \<lparr>out = [JObj [(''jsonrpc'', JStr ''2.0''), (''id'', JInt 2),
                        (''error'', JObj [(''code'', JInt 404),
                                          (''message'', JStr ''city not found'')])]],
          err = [], world = []\<rparr> \<and>
   handle_call_tool demo_env (JInt 2) (JObj params_call)
     (fresh [HttpResponse 500 (Inl (JSONDecodeError ''Expecting value''))]) =
     Inr \<lparr>out = [JObj [(''jsonrpc'', JStr ''2.0''), (''id'', JInt 2),
                        (''error'', JObj [(''code'', JInt (- 32603)),
                           (''message'', JStr ''Internal error: Expecting value'')])]],
          err = [''ERROR: Error calling HTTP endpoint: Expecting value''], world = []\<rparr> \<and>
   handle_call_tool demo_env (JInt 2) (JObj params_call)
     (fresh [HttpResponse 503 (Inr (JArr []))]) =
     Inr \<lparr>out = [JObj [(''jsonrpc'', JStr ''2.0''), (''id'', JInt 2),
                        (''error'', JObj [(''code'', JInt (- 32603)),
                           (''message'', JStr (''Internal error: '' @ [CHR 0x27] @ ''list''
                              @ [CHR 0x27] @ '' object has no attribute '' @ [CHR 0x27]
                              @ ''get'' @ [CHR 0x27]))])]],
          err = [''ERROR: Error calling HTTP endpoint: '' @ [CHR 0x27] @ ''list''
                   @ [CHR 0x27] @ '' object has no attribute '' @ [CHR 0x27]
                   @ ''get'' @ [CHR 0x27]],
          world = []\<rparr>"
proof -
  have n: "field params_call ''name'' JNull = JStr ''weather_info''"
    by (simp add: field_def params_call_def)
  have p: "http_post demo_env (world (fresh [outcome])) (field params_call ''arguments'' (JObj []))
             = (outcome, [])" for outcome
    by (simp add: demo_env_def fresh_def)
  have a: "handle_call_tool demo_env (JInt 2) (JObj params_call)
     (fresh [HttpResponse 404 (Inr (JObj [(''error'', JStr ''city not found'')]))]) =
     Inr \<lparr>out = [JObj [(''jsonrpc'', JStr ''2.0''), (''id'', JInt 2),
                        (''error'', JObj [(''code'', JInt 404),
                                          (''message'', JStr ''city not found'')])]],
          err = [], world = []\<rparr>"
    using http_error_status [OF n p, of 404 _ "JInt 2"]
    by (simp add: send_response_def error_response_def fresh_def field_def)
  have b: "handle_call_tool demo_env (JInt 2) (JObj params_call)
     (fresh [HttpResponse 500 (Inl (JSONDecodeError ''Expecting value''))]) =
     Inr \<lparr>out = [JObj [(''jsonrpc'', JStr ''2.0''), (''id'', JInt 2),
                        (''error'', JObj [(''code'', JInt (- 32603)),
                           (''message'', JStr ''Internal error: Expecting value'')])]],
          err = [''ERROR: Error calling HTTP endpoint: Expecting value''], world = []\<rparr>"
    using http_error_status [OF n p, of 500 _ "JInt 2"]
    by (simp add: send_response_def error_response_def fresh_def log_error_def)
  have c: "handle_call_tool demo_env (JInt 2) (JObj params_call)
     (fresh [HttpResponse 503 (Inr (JArr []))]) =
     Inr \<lparr>out = [JObj [(''jsonrpc'', JStr ''2.0''), (''id'', JInt 2),
                        (''error'', JObj [(''code'', JInt (- 32603)),
                           (''message'', JStr (''Internal error: '' @ [CHR 0x27] @ ''list''
                              @ [CHR 0x27] @ '' object has no attribute '' @ [CHR 0x27]
                              @ ''get'' @ [CHR 0x27]))])]],
          err = [''ERROR: Error calling HTTP endpoint: '' @ [CHR 0x27] @ ''list''
                   @ [CHR 0x27] @ '' object has no attribute '' @ [CHR 0x27]
                   @ ''get'' @ [CHR 0x27]],
          world = []\<rparr>"
    using http_error_status [OF n p, of 503 _ "JInt 2"]
    by (simp add: send_response_def error_response_def fresh_def log_error_def is_dict_def
          exn_str_def no_attribute_def type_name_def)
  from n a b c show ?thesis by blast
qed

text \<open>
  The claim as first stated promises the HTTP status and \<open>HTTP request failed\<close> also
  for a body that is not decodable. A status 500 with such a body is answered with
  \<open>-32603\<close> instead.
\<close>

theorem undecodable_error_body_counterexample:
  "field params_call ''name'' JNull = JStr ''weather_info'' \<and>
   http_post demo_env [HttpResponse 500 (Inl (JSONDecodeError ''Expecting value''))]
     (field params_call ''arguments'' (JObj [])) =
     (HttpResponse 500 (Inl (JSONDecodeError ''Expecting value'')), []) \<and>
   map_sum id out (handle_call_tool demo_env (JInt 2) (JObj params_call)
     (fresh [HttpResponse 500 (Inl (JSONDecodeError ''Expecting value''))])) =
     Inr [error_response (JInt 2) (- 32603) (JStr ''Internal error: Expecting value'')] \<and>
   error_response (JInt 2) (- 32603) (JStr ''Internal error: Expecting value'') \<noteq>
     error_response (JInt 2) 500 (JStr ''HTTP request failed'')"
  by (simp add: handle_call_tool_dict field_def params_call_def demo_env_def fresh_def
        http_result_def exn_str_def error_response_def)

subsection \<open>The report of a successful call\<close>

text \<open>
  Claim C5. When the backend answers a call of \<open>weather_info\<close> with status 200 and a
  body holding a \<open>timestamp\<close> and \<open>results\<close>, a mapping from cities to records with
  the four fields, the bridge returns a success result with a single text content item.
  Its text is the header line with the timestamp, the rule, and for each city in the
  order received a block with its temperature, condition, humidity and wind speed.
\<close>

theorem weather_report:
  assumes "field p ''name'' JNull = JStr ''weather_info''"
    and "http_post env (world st) (field p ''arguments'' (JObj [])) =
           (HttpResponse 200 (Inr (JObj body)), w')"
    and "map_of body ''timestamp'' = Some ts"
    and "map_of body ''results'' = Some (JObj cities)"
    and "list_all (\<lambda>ci. city_fields (snd ci) \<noteq> None) cities"
  shows "handle_call_tool env request_id (JObj p) st =
           Inr (send_response
                 (result_response request_id
                    (JObj [(''content'', JArr
                       [JObj [(''type'', JStr ''text''),
                              (''text'', JStr (report env ts cities))]])]))
                 (st\<lparr>world := w'\<rparr>))"
proof -
  from format_results_ok [OF assms(3-5), of env] obtain results_text where
    "format_results env (JObj body) = Inr results_text"
    "py_join [CHR 0x0A] results_text = report env ts cities"
    by blast
  with assms(1,2) show ?thesis
    by (simp add: handle_call_tool_dict http_result_def)
qed

theorem weather_report_witness:
  "field params_call ''name'' JNull = JStr ''weather_info'' \<and>
   http_post demo_env (world (fresh [HttpResponse 200 (Inr paris_body)]))
     (field params_call ''arguments'' (JObj [])) = (HttpResponse 200 (Inr paris_body), []) \<and>
   handle_call_tool demo_env (JInt 2) (JObj params_call)
     (fresh [HttpResponse 200 (Inr paris_body)]) =
     Inr \<lparr>out = [JObj [(''jsonrpc'', JStr ''2.0''), (''id'', JInt 2),
                        (''result'', JObj [(''content'', JArr
                           [JObj [(''type'', JStr ''text''),
                                  (''text'', JStr
                                    (''Weather Information (Retrieved: 2024-01-01T00:00:00Z)''
                                     @ [CHR 0x0A] @ replicate 60 CHR ''=''
                                     @ [CHR 0x0A, CHR 0x0A] @ globe @ '' Paris''
                                     @ [CHR 0x0A] @ ''   Temperature: 18'' @ degree @ ''C''
                                     @ [CHR 0x0A] @ ''   Condition: Cloudy''
                                     @ [CHR 0x0A] @ ''   Humidity: 60%''
                                     @ [CHR 0x0A] @ ''   Wind Speed: 12 km/h''))]])])]],
          err = [], world = []\<rparr>"
proof -
  let ?body = "[(''timestamp'', JStr ''2024-01-01T00:00:00Z''),
           (''results'', JObj
              [(''Paris'', JObj [(''temperature'', JInt 18), (''condition'', JStr ''Cloudy''),
                                 (''humidity'', JInt 60), (''wind_speed'', JInt 12)])])]"
  have n: "field params_call ''name'' JNull = JStr ''weather_info''"
    by (simp add: field_def params_call_def)
  have p: "http_post demo_env (world (fresh [HttpResponse 200 (Inr paris_body)]))
     (field params_call ''arguments'' (JObj [])) = (HttpResponse 200 (Inr (JObj ?body)), [])"
    by (simp add: demo_env_def fresh_def paris_body_def)
  have t: "map_of ?body ''timestamp'' = Some (JStr ''2024-01-01T00:00:00Z'')" by simp
  have r: "map_of ?body ''results'' = Some (JObj
              [(''Paris'', JObj [(''temperature'', JInt 18), (''condition'', JStr ''Cloudy''),
                                 (''humidity'', JInt 60), (''wind_speed'', JInt 12)])])" by simp
  have c: "list_all (\<lambda>ci. city_fields (snd ci) \<noteq> None)
              [(''Paris'', JObj [(''temperature'', JInt 18), (''condition'', JStr ''Cloudy''),
                                 (''humidity'', JInt 60), (''wind_speed'', JInt 12)])]"
    by (simp add: city_fields_def)
  from weather_report [OF n p t r c, of "JInt 2"] n p show ?thesis
    by (simp add: send_response_def result_response_def fresh_def report_def city_block_def
          city_fields_def py_str_def show_int_examples paris_body_def)
qed

subsection \<open>A body that lacks an expected field\<close>

text \<open>
  Claim C9. When the backend answers with status 200 and the decoded body lacks
  \<open>timestamp\<close> or \<open>results\<close>, or some city's record lacks one of its four fields, the
  lookup raises inside the \<open>try\<close> and the bridge answers with exactly one framed error
  of code \<open>-32603\<close> carrying the request's id.
\<close>

theorem missing_field_internal_error:
  assumes "field p ''name'' JNull = JStr ''weather_info''"
    and "http_post env (world st) (field p ''arguments'' (JObj [])) =
           (HttpResponse 200 (Inr data), w')"
    and "missing_field data"
  shows "\<exists>e. format_results env data = Inl e \<and>
           handle_call_tool env request_id (JObj p) st =
             Inr (send_response
                   (error_response request_id (- 32603) (JStr (''Internal error: '' @ exn_str e)))
                   (log_error (''Error calling HTTP endpoint: '' @ exn_str e)
                      (st\<lparr>world := w'\<rparr>)))"
proof -
  from format_results_missing [OF assms(3), of env] obtain e where
    "format_results env data = Inl e" "e \<noteq> ConnectionError"
    by blast
  with assms(1,2) show ?thesis
    by (simp add: handle_call_tool_dict http_result_def)
qed

theorem missing_field_internal_error_witness:
  "field params_call ''name'' JNull = JStr ''weather_info'' \<and>
   missing_field
     (JObj [(''timestamp'', JStr ''2024-01-01T00:00:00Z''),
            (''results'', JObj
               [(''Paris'', JObj [(''temperature'', JInt 18), (''condition'', JStr ''Cloudy''),
                                  (''wind_speed'', JInt 12)])])]) \<and>
   handle_call_tool demo_env (JInt 2) (JObj params_call)
     (fresh [HttpResponse 200 (Inr
        (JObj [(''timestamp'', JStr ''2024-01-01T00:00:00Z''),
               (''results'', JObj
                  [(''Paris'', JObj [(''temperature'', JInt 18), (''condition'', JStr ''Cloudy''),
                                     (''wind_speed'', JInt 12)])])]))]) =
     Inr \<lparr>out = [JObj [(''jsonrpc'', JStr ''2.0''), (''id'', JInt 2),
                        (''error'', JObj [(''code'', JInt (- 32603)),
                           (''message'', JStr (''Internal error: '' @ [CHR 0x27] @ ''humidity''
                                               @ [CHR 0x27]))])]],
          err = [''ERROR: Error calling HTTP endpoint: '' @ [CHR 0x27] @ ''humidity''
                   @ [CHR 0x27]],
          world = []\<rparr>"
proof -
  let ?data = "JObj [(''timestamp'', JStr ''2024-01-01T00:00:00Z''),
            (''results'', JObj
               [(''Paris'', JObj [(''temperature'', JInt 18), (''condition'', JStr ''Cloudy''),
                                  (''wind_speed'', JInt 12)])])]"
  have n: "field params_call ''name'' JNull = JStr ''weather_info''"
    by (simp add: field_def params_call_def)
  have p: "http_post demo_env (world (fresh [HttpResponse 200 (Inr ?data)]))
     (field params_call ''arguments'' (JObj [])) = (HttpResponse 200 (Inr ?data), [])"
    by (simp add: demo_env_def fresh_def)
  have m: "missing_field ?data"
    by (simp add: missing_field_def city_fields_def is_dict_def)
  have f: "format_results demo_env ?data = Inl (KeyError ''humidity'')"
    by (simp add: format_results_def py_subscript_def py_items_def)
  from missing_field_internal_error [OF n p m, of "JInt 2"] f
  have "handle_call_tool demo_env (JInt 2) (JObj params_call) (fresh [HttpResponse 200 (Inr ?data)]) =
      Inr (send_response
            (error_response (JInt 2) (- 32603)
               (JStr (''Internal error: '' @ exn_str (KeyError ''humidity''))))
            (log_error (''Error calling HTTP endpoint: '' @ exn_str (KeyError ''humidity''))
               (fresh [HttpResponse 200 (Inr ?data)]\<lparr>world := []\<rparr>)))"
    by auto
  with n m show ?thesis
    by (simp add: send_response_def error_response_def log_error_def fresh_def exn_str_def)
qed

subsection \<open>One line of input\<close>

lemma request_ofD:
  assumes "request_of env l = Some kvs"
  shows "py_strip l \<noteq> []" and "loads env (py_strip l) = Inr (JObj kvs)"
  using assms
  by (auto simp: request_of_def Let_def split: if_splits sum.splits json.splits)

lemma response_id_simps [simp]:
  "response_id (result_response rid r) = Some rid"
  "response_id (error_response rid c m) = Some rid"
  by (simp_all add: response_id_def result_response_def error_response_def)

lemma http_result_id: "http_result env rid outcome = Inr r \<Longrightarrow> response_id r = Some rid"
  by (auto simp: http_result_def split: http_outcome.splits if_splits sum.splits)

lemma handle_call_tool_frame:
  "\<exists>st' r. handle_call_tool env rid (JObj p) st = Inr st' \<and> out st' = out st @ [r] \<and>
     response_id r = Some rid"
  by (auto simp: handle_call_tool_dict http_result_id split: prod.splits sum.splits)

lemma process_line_request:
  assumes "request_of env l = Some kvs"
  shows "process_line env l st =
     (case dispatch env (JObj kvs) st of
        (None, st') \<Rightarrow> st'
      | (Some (JSONDecodeError m), st') \<Rightarrow> log_error (''Invalid JSON: '' @ m) st'
      | (Some e, st') \<Rightarrow> log_error (''Error processing request: '' @ exn_str e) st')"
  using request_ofD [OF assms] by (simp add: process_line_def)

lemma dispatch_dict:
  "dispatch env (JObj kvs) st =
     (let request_id = field kvs ''id'' JNull;
          params = field kvs ''params'' (JObj []);
          st1 = log_error (''Received request: '' @ py_str env (method_of kvs)) st in
      if method_of kvs = JStr ''initialize'' then (None, handle_initialize request_id st1)
      else if method_of kvs = JStr ''tools/list'' then (None, handle_list_tools request_id st1)
      else if method_of kvs = JStr ''tools/call'' then
        (case handle_call_tool env request_id params st1 of
           Inl e \<Rightarrow> (Some e, st1)
         | Inr st2 \<Rightarrow> (None, st2))
      else if method_of kvs = JStr ''ping'' then (None, handle_ping request_id st1)
      else if method_of kvs = JStr ''notifications/initialized'' then (None, st1)
      else
        (None, send_response
                 (error_response request_id (- 32601)
                    (JStr (''Method not found: '' @ py_str env (method_of kvs)))) st1))"
  by (simp add: dispatch_def method_of_def Let_def)

lemma answered_one_frame:
  assumes "request_of env l = Some kvs" and "answered kvs"
  shows "\<exists>r. out (process_line env l st) = out st @ [r] \<and>
              response_id r = Some (field kvs ''id'' JNull)"
proof (cases "method_of kvs = JStr ''tools/call''")
  case True
  with assms(2) obtain p where p: "field kvs ''params'' (JObj []) = JObj p"
    by (cases "field kvs ''params'' (JObj [])") (simp_all add: answered_def is_dict_def)
  from handle_call_tool_frame [of env "field kvs ''id'' JNull" p
      "log_error (''Received request: '' @ py_str env (method_of kvs)) st"]
  show ?thesis
    by (auto simp: process_line_request [OF assms(1)] dispatch_dict True p Let_def)
next
  case False
  with assms(2) show ?thesis
    by (simp add: process_line_request [OF assms(1)] dispatch_dict answered_def Let_def
          handle_initialize_def handle_list_tools_def handle_ping_def)
qed

lemma initialized_silent:
  assumes "request_of env l = Some kvs"
    and "method_of kvs = JStr ''notifications/initialized''"
  shows "process_line env l st = log_error ''Received request: notifications/initialized'' st"
  using assms(2)
  by (simp add: process_line_request [OF assms(1)] dispatch_dict Let_def py_str_def)

lemma frames_since_process_line:
  "frames_since st (process_line env l st) = out (process_line env l (fresh (world st)))"
  by (subst process_line_fresh) (simp add: frames_since_def)

lemma frames_since_main_loop:
  "frames_since st (snd (main_loop env items st)) =
     out (snd (main_loop env items (fresh (world st))))"
  by (subst main_loop_fresh) (simp add: frames_since_def)

lemma out_main_loop_Cons:
  "out (snd (main_loop env (Inr l # items) st)) =
     out (process_line env l st) @
     out (snd (main_loop env items (fresh (world (process_line env l st)))))"
  by (simp, subst main_loop_fresh) simp

lemma answerable_ids:
  "list_all (answerable env) ls \<Longrightarrow>
   map response_id (out (snd (main_loop env (map Inr ls) (fresh w)))) = map (line_id env) ls"
proof (induction ls arbitrary: w)
  case Nil
  show ?case by simp
next
  case (Cons l ls)
  from Cons.prems obtain kvs i where r: "request_of env l = Some kvs"
    and i: "map_of kvs ''id'' = Some i" and a: "answered kvs"
    by (auto simp: answerable_def split: option.splits)
  from answered_one_frame [OF r a, of "fresh w"] obtain fr where
    fr: "out (process_line env l (fresh w)) = [fr]" "response_id fr = Some (field kvs ''id'' JNull)"
    by auto
  from Cons.prems have "list_all (answerable env) ls" by simp
  from Cons.IH [OF this] fr r i show ?case
    by (simp only: list.map out_main_loop_Cons) (simp add: line_id_def field_def)
qed

lemma main_loop_log:
  "fst (main_loop env items (log_error m st)) = fst (main_loop env items st)"
  "out (snd (main_loop env items (log_error m st))) = out (snd (main_loop env items st))"
  "world (snd (main_loop env items (log_error m st))) = world (snd (main_loop env items st))"
  by (subst main_loop_fresh, subst (2) main_loop_fresh, simp)+

lemma bad_text_line_skipped:
  assumes "blank l \<or> invalid_json env l"
  shows "process_line env l st =
           (if blank l then st else log_error (''Invalid JSON: '' @ decode_error env l) st)"
    and "fst (main_loop env (Inr l # after) st) = fst (main_loop env after st)"
    and "out (snd (main_loop env (Inr l # after) st)) = out (snd (main_loop env after st))"
    and "world (snd (main_loop env (Inr l # after) st)) = world (snd (main_loop env after st))"
proof -
  show step: "process_line env l st =
           (if blank l then st else log_error (''Invalid JSON: '' @ decode_error env l) st)"
    using assms
    by (auto simp: process_line_def blank_def invalid_json_def decode_error_def Let_def
          split: sum.splits py_exn.splits)
  show "fst (main_loop env (Inr l # after) st) = fst (main_loop env after st)"
    and "out (snd (main_loop env (Inr l # after) st)) = out (snd (main_loop env after st))"
    and "world (snd (main_loop env (Inr l # after) st)) = world (snd (main_loop env after st))"
    by (simp_all add: step main_loop_log)
qed

lemma handle_call_tool_out:
  assumes "\<forall>body. fst (http_post env (world st2) body) = fst (http_post env (world st1) body)"
    and "out st2 = out st1"
  shows "map_sum id out (handle_call_tool env rid params st2) =
         map_sum id out (handle_call_tool env rid params st1)"
proof (cases params)
  case (JObj p)
  from assms(1) have "fst (http_post env (world st2) (field p ''arguments'' (JObj []))) =
      fst (http_post env (world st1) (field p ''arguments'' (JObj [])))"
    by blast
  with assms(2) show ?thesis
    by (cases "http_post env (world st2) (field p ''arguments'' (JObj []))";
        cases "http_post env (world st1) (field p ''arguments'' (JObj []))")
       (simp add: JObj handle_call_tool_dict split: sum.splits)
qed (simp_all add: handle_call_tool_def py_get_def)

lemma dispatch_out:
  assumes "\<forall>body. fst (http_post env w2 body) = fst (http_post env w1 body)"
  shows "map_prod id out (dispatch env request (fresh w2)) =
         map_prod id out (dispatch env request (fresh w1))"
proof (cases request)
  case (JObj kvs)
  let ?m = "''Received request: '' @ py_str env (method_of kvs)"
  let ?h2 = "handle_call_tool env (field kvs ''id'' JNull) (field kvs ''params'' (JObj []))
               (log_error ?m (fresh w2))"
  let ?h1 = "handle_call_tool env (field kvs ''id'' JNull) (field kvs ''params'' (JObj []))
               (log_error ?m (fresh w1))"
  have "map_sum id out ?h2 = map_sum id out ?h1"
    by (rule handle_call_tool_out) (simp_all add: assms)
  then have "(\<exists>e. ?h2 = Inl e \<and> ?h1 = Inl e) \<or>
             (\<exists>s2 s1. ?h2 = Inr s2 \<and> ?h1 = Inr s1 \<and> out s2 = out s1)"
    by (cases ?h2; cases ?h1) simp_all
  then show ?thesis
    by (auto simp: JObj dispatch_dict Let_def handle_initialize_def handle_list_tools_def
          handle_ping_def)
qed (simp_all add: dispatch_def py_get_def)

lemma process_line_out:
  assumes "\<forall>body. fst (http_post env w2 body) = fst (http_post env w1 body)"
  shows "out (process_line env l (fresh w2)) = out (process_line env l (fresh w1))"
proof (cases "py_strip l = []")
  case True
  then show ?thesis by (simp add: process_line_def)
next
  case False
  show ?thesis
  proof (cases "loads env (py_strip l)")
    case (Inl e)
    with False show ?thesis
      by (cases e) (simp_all add: process_line_def)
  next
    case (Inr request)
    obtain e2 s2 where d2: "dispatch env request (fresh w2) = (e2, s2)"
      by (cases "dispatch env request (fresh w2)")
    obtain e1 s1 where d1: "dispatch env request (fresh w1) = (e1, s1)"
      by (cases "dispatch env request (fresh w1)")
    from dispatch_out [OF assms, of request] d1 d2 have "e2 = e1" "out s2 = out s1"
      by simp_all
    with False Inr d1 d2 show ?thesis
      by (simp add: process_line_def split: option.splits py_exn.splits)
  qed
qed

lemma lstrip_with_all:
  "(\<forall>c\<in>set s. [c] \<in> set ws) \<Longrightarrow> lstrip_with ws s = []"
proof (induction ws s rule: lstrip_with.induct)
  case (1 ws s)
  show ?case
  proof (cases "List.find (\<lambda>w. w \<noteq> [] \<and> prefix w s) ws")
    case None
    have "s = []"
    proof (rule ccontr)
      assume "s \<noteq> []"
      then obtain c cs where s: "s = c # cs" by (cases s) auto
      with "1.prems" have "[c] \<in> set ws" by simp
      with None s show False by (auto simp: find_None_iff)
    qed
    with None show ?thesis by (subst lstrip_with.simps) simp
  next
    case (Some w)
    from "1.prems" have "\<forall>c\<in>set (drop (length w) s). [c] \<in> set ws"
      by (meson in_set_dropD)
    from "1.IH" [OF Some this] Some show ?thesis
      by (subst lstrip_with.simps) simp
  qed
qed

lemma whitespace_only_blank:
  assumes "\<forall>c\<in>set l. [c] \<in> set whitespace"
  shows "blank l"
proof -
  from assms have "lstrip_with whitespace l = []" by (rule lstrip_with_all)
  moreover have "lstrip_with (map rev whitespace) [] = []"
    by (rule lstrip_with_all) simp
  ultimately show ?thesis
    by (simp add: blank_def py_strip_def)
qed

lemma demo_lines:
  "request_of demo_env (line_ping @ [CHR 0x0A]) =
     Some [(''jsonrpc'', JStr ''2.0''), (''id'', JInt 1), (''method'', JStr ''ping'')]"
  "request_of demo_env (line_ping_no_id @ [CHR 0x0A]) =
     Some [(''jsonrpc'', JStr ''2.0''), (''method'', JStr ''ping'')]"
  "request_of demo_env (line_initialized @ [CHR 0x0A]) =
     Some [(''jsonrpc'', JStr ''2.0''), (''id'', JInt 7),
           (''method'', JStr ''notifications/initialized'')]"
  "request_of demo_env (line_call @ [CHR 0x0A]) =
     Some [(''jsonrpc'', JStr ''2.0''), (''id'', JInt 2), (''method'', JStr ''tools/call''),
           (''params'', JObj params_call)]"
  "request_of demo_env (line_resources @ [CHR 0x0A]) =
     Some [(''jsonrpc'', JStr ''2.0''), (''id'', JInt 4), (''method'', JStr ''resources/list'')]"
  "request_of demo_env (line_no_method @ [CHR 0x0A]) =
     Some [(''jsonrpc'', JStr ''2.0''), (''id'', JInt 5)]"
  by code_simp+

subsection \<open>Unknown methods\<close>

text \<open>
  Claim C6. A request whose method is none of the five recognized names is answered
  with error \<open>-32601\<close> and the message \<open>Method not found: <method>\<close>; a request
  without a \<open>method\<close> field is such a request, its method being \<open>None\<close>.
\<close>

theorem unknown_method:
  assumes "request_of env l = Some kvs"
    and "method_of kvs \<notin> set recognized_methods"
  shows "process_line env l st =
           send_response
             (error_response (field kvs ''id'' JNull) (- 32601)
                (JStr (''Method not found: '' @ py_str env (method_of kvs))))
             (log_error (''Received request: '' @ py_str env (method_of kvs)) st)"
  using assms(2)
  by (simp add: process_line_request [OF assms(1)] dispatch_dict recognized_methods_def Let_def)

theorem unknown_method_witness:
  "request_of demo_env (line_resources @ [CHR 0x0A]) =
     Some [(''jsonrpc'', JStr ''2.0''), (''id'', JInt 4), (''method'', JStr ''resources/list'')] \<and>
   JStr ''resources/list'' \<notin> set recognized_methods \<and>
   process_line demo_env (line_resources @ [CHR 0x0A]) (fresh []) =
     \<lparr>out = [JObj [(''jsonrpc'', JStr ''2.0''), (''id'', JInt 4),
                   (''error'', JObj [(''code'', JInt (- 32601)),
                      (''message'', JStr ''Method not found: resources/list'')])]],
      err = [''ERROR: Received request: resources/list''], world = []\<rparr> \<and>
   request_of demo_env (line_no_method @ [CHR 0x0A]) =
     Some [(''jsonrpc'', JStr ''2.0''), (''id'', JInt 5)] \<and>
   process_line demo_env (line_no_method @ [CHR 0x0A]) (fresh []) =
     \<lparr>out = [JObj [(''jsonrpc'', JStr ''2.0''), (''id'', JInt 5),
                   (''error'', JObj [(''code'', JInt (- 32601)),
                      (''message'', JStr ''Method not found: None'')])]],
      err = [''ERROR: Received request: None''], world = []\<rparr>"
proof -
  have m4: "method_of [(''jsonrpc'', JStr ''2.0''), (''id'', JInt 4),
                       (''method'', JStr ''resources/list'')] \<notin> set recognized_methods"
    by (simp add: method_of_def field_def recognized_methods_def)
  have m5: "method_of [(''jsonrpc'', JStr ''2.0''), (''id'', JInt 5)] \<notin> set recognized_methods"
    by (simp add: method_of_def field_def recognized_methods_def)
  from unknown_method [OF demo_lines(5) m4, of "fresh []"]
    unknown_method [OF demo_lines(6) m5, of "fresh []"] demo_lines(5,6)
  show ?thesis
    by (simp add: method_of_def field_def recognized_methods_def py_str_def send_response_def
          log_error_def error_response_def fresh_def)
qed

subsection \<open>One response per request, in order\<close>

text \<open>
  Claim C1, as amended. For input lines that each decode to a request carrying an \<open>id\<close>,
  with a method other than \<open>notifications/initialized\<close> and, for \<open>tools/call\<close>,
  parameters that are an object or absent, the frames the bridge writes are, one for
  one and in the order the lines were read, frames carrying the ids of the requests.
\<close>

theorem responses_in_order:
  assumes "list_all (answerable env) lines"
  shows "fst (main_loop env (map Inr lines) st) = None \<and>
         map response_id (frames_since st (snd (main_loop env (map Inr lines) st))) =
           map (line_id env) lines"
  unfolding frames_since_main_loop by (simp add: main_loop_text answerable_ids [OF assms])

theorem responses_in_order_witness:
  "list_all (answerable demo_env)
     [line_ping @ [CHR 0x0A], line_call @ [CHR 0x0A], line_resources @ [CHR 0x0A]] \<and>
   map response_id
     (frames_since (fresh [HttpResponse 200 (Inr paris_body)])
        (snd (main_loop demo_env
                [Inr (line_ping @ [CHR 0x0A]), Inr (line_call @ [CHR 0x0A]),
                 Inr (line_resources @ [CHR 0x0A])]
                (fresh [HttpResponse 200 (Inr paris_body)])))) =
     [Some (JInt 1), Some (JInt 2), Some (JInt 4)]"
proof -
  have a: "list_all (answerable demo_env)
     [line_ping @ [CHR 0x0A], line_call @ [CHR 0x0A], line_resources @ [CHR 0x0A]]"
    by (simp add: answerable_def demo_lines answered_def method_of_def field_def is_dict_def)
  have i: "map (line_id demo_env)
     [line_ping @ [CHR 0x0A], line_call @ [CHR 0x0A], line_resources @ [CHR 0x0A]] =
     [Some (JInt 1), Some (JInt 2), Some (JInt 4)]"
    by (simp add: line_id_def demo_lines)
  from responses_in_order [OF a, of "fresh [HttpResponse 200 (Inr paris_body)]"] a i
  show ?thesis by simp
qed

text \<open>
  The claim as first stated promises a response to every request with an \<open>id\<close>. The
  acknowledged notification gets none, even when it carries one.
\<close>

theorem initialized_with_id_counterexample:
  "request_of demo_env (line_initialized @ [CHR 0x0A]) =
     Some [(''jsonrpc'', JStr ''2.0''), (''id'', JInt 7),
           (''method'', JStr ''notifications/initialized'')] \<and>
   map_of [(''jsonrpc'', JStr ''2.0''), (''id'', JInt 7),
           (''method'', JStr ''notifications/initialized'')] ''id'' = Some (JInt 7) \<and>
   out (snd (main_loop demo_env [Inr (line_initialized @ [CHR 0x0A])] (fresh []))) = []"
proof -
  have "process_line demo_env (line_initialized @ [CHR 0x0A]) (fresh []) =
          log_error ''Received request: notifications/initialized'' (fresh [])"
    by (rule initialized_silent [OF demo_lines(3)]) (simp add: method_of_def field_def)
  then show ?thesis by (simp add: demo_lines)
qed

subsection \<open>Requests without an id\<close>

text \<open>
  Claim C2, as amended. A request whose method is \<open>notifications/initialized\<close> produces
  no output, with or without an \<open>id\<close>. A request without an \<open>id\<close> and with any other
  method that the dispatcher answers produces exactly one frame, whose \<open>id\<close> is
  \<open>null\<close>: an absent id is never invented, it is propagated as \<open>None\<close>.
\<close>

theorem notification_handling:
  assumes "request_of env l = Some kvs"
  shows "(method_of kvs = JStr ''notifications/initialized'' \<longrightarrow>
            out (process_line env l st) = out st) \<and>
         (map_of kvs ''id'' = None \<and> answered kvs \<longrightarrow>
            (\<exists>r. out (process_line env l st) = out st @ [r] \<and> response_id r = Some JNull))"
proof (intro conjI impI)
  assume "method_of kvs = JStr ''notifications/initialized''"
  from initialized_silent [OF assms this] show "out (process_line env l st) = out st"
    by simp
next
  assume "map_of kvs ''id'' = None \<and> answered kvs"
  then have n: "field kvs ''id'' JNull = JNull" and a: "answered kvs"
    by (simp_all add: field_def)
  from answered_one_frame [OF assms a, of st] n
  show "\<exists>r. out (process_line env l st) = out st @ [r] \<and> response_id r = Some JNull"
    by simp
qed

theorem notification_handling_witness:
  "request_of demo_env (line_initialized @ [CHR 0x0A]) =
     Some [(''jsonrpc'', JStr ''2.0''), (''id'', JInt 7),
           (''method'', JStr ''notifications/initialized'')] \<and>
   out (process_line demo_env (line_initialized @ [CHR 0x0A]) (fresh [])) = [] \<and>
   request_of demo_env (line_ping_no_id @ [CHR 0x0A]) =
     Some [(''jsonrpc'', JStr ''2.0''), (''method'', JStr ''ping'')] \<and>
   map_of [(''jsonrpc'', JStr ''2.0''), (''method'', JStr ''ping'')] ''id'' = None \<and>
   answered [(''jsonrpc'', JStr ''2.0''), (''method'', JStr ''ping'')] \<and>
   (\<exists>r. out (process_line demo_env (line_ping_no_id @ [CHR 0x0A]) (fresh [])) = [r] \<and>
        response_id r = Some JNull)"
proof -
  have m: "method_of [(''jsonrpc'', JStr ''2.0''), (''id'', JInt 7),
             (''method'', JStr ''notifications/initialized'')] =
           JStr ''notifications/initialized''"
    by (simp add: method_of_def field_def)
  have a: "map_of [(''jsonrpc'', JStr ''2.0''), (''method'', JStr ''ping'')] ''id'' = None \<and>
           answered [(''jsonrpc'', JStr ''2.0''), (''method'', JStr ''ping'')]"
    by (simp add: answered_def method_of_def field_def)
  from notification_handling [OF demo_lines(3), of "fresh []"] m
  have 1: "out (process_line demo_env (line_initialized @ [CHR 0x0A]) (fresh [])) = []"
    by simp
  from notification_handling [OF demo_lines(2), of "fresh []"] a
  have 2: "\<exists>r. out (process_line demo_env (line_ping_no_id @ [CHR 0x0A]) (fresh [])) = [r] \<and>
        response_id r = Some JNull"
    by simp
  from 1 2 a demo_lines(2,3) show ?thesis by blast
qed

text \<open>
  The claim as first stated promises silence for every request without an \<open>id\<close>. A
  \<open>ping\<close> without one is answered, with \<open>id\<close> \<open>null\<close>.
\<close>

theorem ping_without_id_counterexample:
  "request_of demo_env (line_ping_no_id @ [CHR 0x0A]) =
     Some [(''jsonrpc'', JStr ''2.0''), (''method'', JStr ''ping'')] \<and>
   map_of [(''jsonrpc'', JStr ''2.0''), (''method'', JStr ''ping'')] ''id'' = None \<and>
   out (snd (main_loop demo_env [Inr (line_ping_no_id @ [CHR 0x0A])] (fresh []))) =
     [JObj [(''jsonrpc'', JStr ''2.0''), (''id'', JNull), (''result'', JObj [])]]"
  by (simp add: demo_lines process_line_request [OF demo_lines(2)] dispatch_dict method_of_def
        field_def Let_def handle_ping_def result_response_def)

subsection \<open>Blank and malformed lines\<close>

text \<open>
  Claim C8. The claim is that no line that is empty, whitespace-only or not valid JSON
  gets a frame or stops the bridge, the lines after it being processed as if it were
  not there. For a line that reaches the body of the loop as text this is so
  (\<open>bad_text_line_skipped\<close>). A line whose bytes the input stream cannot decode is not
  valid JSON either, and on it the iterator of \<open>sys.stdin\<close> raises outside the \<open>try\<close>:
  \<open>main\<close> ends with the exception and the request that follows is never read, while
  the same input without that line gets its answer.
\<close>

theorem undecodable_line_ends_main:
  "main demo_env [Inl undecodable, Inr (line_ping @ [CHR 0x0A])] [] =
     (Some undecodable,
      \<lparr>out = [],
       err = [''ERROR: MCP stdio bridge started'',
              ''ERROR: WARNING: Cannot connect to Rust Weather API HTTP server on port 3000'',
              ''ERROR: Please start the server with: cargo run --bin server''],
       world = []\<rparr>) \<and>
   main demo_env [Inr (line_ping @ [CHR 0x0A])] [] =
     (None,
      \<lparr>out = [JObj [(''jsonrpc'', JStr ''2.0''), (''id'', JInt 1), (''result'', JObj [])]],
       err = [''ERROR: MCP stdio bridge started'',
              ''ERROR: WARNING: Cannot connect to Rust Weather API HTTP server on port 3000'',
              ''ERROR: Please start the server with: cargo run --bin server'',
              ''ERROR: Received request: ping''],
       world = []\<rparr>)"
proof -
  have g: "http_get demo_env w = (None, w)" for w
    by (simp add: demo_env_def)
  have p: "process_line demo_env (line_ping @ [CHR 0x0A]) st =
             handle_ping (JInt 1) (log_error ''Received request: ping'' st)" for st
    unfolding process_line_request [OF demo_lines(1)] dispatch_dict
    by (simp add: method_of_def field_def Let_def py_str_def)
  show ?thesis
    by (simp add: main_def Let_def g p handle_ping_def result_response_def send_response_def
          log_error_def)
qed

subsection \<open>No state across requests\<close>

text \<open>
  Claim C10. The frames the bridge writes for a line depend on the line and on what the
  backend answers, and on nothing the bridge did before: from any two states in which
  the backend gives the same outcome, the same line produces the same frames. In
  particular a line processed twice in succession gets the same response twice,
  whenever the backend's answer is the same.
\<close>

theorem replay_same_frames:
  assumes "\<forall>body. fst (http_post env (world st2) body) = fst (http_post env (world st1) body)"
  shows "frames_since st2 (process_line env l st2) = frames_since st1 (process_line env l st1)"
  unfolding frames_since_process_line by (rule process_line_out [OF assms])

theorem replay_same_frames_witness:
  "(\<forall>body.
      fst (http_post demo_env
             (world (process_line demo_env (line_call @ [CHR 0x0A])
                       (fresh [HttpResponse 200 (Inr paris_body),
                               HttpResponse 200 (Inr paris_body)]))) body) =
      fst (http_post demo_env
             (world (fresh [HttpResponse 200 (Inr paris_body),
                            HttpResponse 200 (Inr paris_body)])) body)) \<and>
   frames_since
     (process_line demo_env (line_call @ [CHR 0x0A])
        (fresh [HttpResponse 200 (Inr paris_body), HttpResponse 200 (Inr paris_body)]))
     (process_line demo_env (line_call @ [CHR 0x0A])
        (process_line demo_env (line_call @ [CHR 0x0A])
           (fresh [HttpResponse 200 (Inr paris_body), HttpResponse 200 (Inr paris_body)]))) =
   frames_since
     (fresh [HttpResponse 200 (Inr paris_body), HttpResponse 200 (Inr paris_body)])
     (process_line demo_env (line_call @ [CHR 0x0A])
        (fresh [HttpResponse 200 (Inr paris_body), HttpResponse 200 (Inr paris_body)]))"
proof -
  let ?st = "fresh [HttpResponse 200 (Inr paris_body), HttpResponse 200 (Inr paris_body)]"
  have w: "world (process_line demo_env (line_call @ [CHR 0x0A]) ?st) =
             [HttpResponse 200 (Inr paris_body)]"
    unfolding process_line_request [OF demo_lines(4)] dispatch_dict
    by (simp add: method_of_def field_def Let_def handle_call_tool_dict params_call_def
          demo_env_def fresh_def split: sum.splits)
  have h: "\<forall>body.
      fst (http_post demo_env (world (process_line demo_env (line_call @ [CHR 0x0A]) ?st)) body) =
      fst (http_post demo_env (world ?st) body)"
    by (simp add: w) (simp add: demo_env_def fresh_def)
  from replay_same_frames [OF h, of "line_call @ [CHR 0x0A]"] h show ?thesis
    by blast
qed

end
